theory Spec2Isabelle
  imports Main "HOL-Library.Word" "HOL-Library.Signed_Division"
begin

unbundle bit_operations_syntax

section \<open>neo-alloc.c: a first-fit, non-splitting, non-coalescing allocator\<close>

text \<open>
  The embedding follows \<^verbatim>\<open>src/neo-alloc.c\<close> on the platform its build line targets
  (gcc, gnu99, Linux, LP64, little-endian): \<^verbatim>\<open>size_t\<close>, \<^verbatim>\<open>intptr_t\<close> and every pointer
  are 64-bit words, \<^verbatim>\<open>sizeof(void*)\<close> is 8 and \<^verbatim>\<open>sizeof(header_s)\<close> is 16. Arithmetic on
  \<^verbatim>\<open>void*\<close> counts bytes (the GNU extension); arithmetic on \<^verbatim>\<open>header_s*\<close> counts
  headers of 16 bytes each. Memory is one flat byte-addressed store.
\<close>

subsection \<open>Machine types and memory\<close>

type_synonym addr = "64 word"
type_synonym size_t = "64 word"
type_synonym byte = "8 word"
type_synonym memory = "addr \<Rightarrow> byte"

abbreviation NULL :: addr where
  "NULL \<equiv> 0"

text \<open>Byte \<open>i\<close> of a 64-bit value, least significant first.\<close>

definition byte_of :: "64 word \<Rightarrow> nat \<Rightarrow> byte" where
  "byte_of v i = ucast (drop_bit (8 * i) v)"

text \<open>Reading an 8-byte field (\<^verbatim>\<open>size_t\<close> or a pointer) at an address.\<close>

definition load64 :: "memory \<Rightarrow> addr \<Rightarrow> 64 word" where
  "load64 m a =
     ucast (m a)
     OR push_bit 8 (ucast (m (a + 1)))
     OR push_bit 16 (ucast (m (a + 2)))
     OR push_bit 24 (ucast (m (a + 3)))
     OR push_bit 32 (ucast (m (a + 4)))
     OR push_bit 40 (ucast (m (a + 5)))
     OR push_bit 48 (ucast (m (a + 6)))
     OR push_bit 56 (ucast (m (a + 7)))"

text \<open>Writing an 8-byte field: the eight bytes from \<open>a\<close> on change, nothing else.\<close>

definition store64 :: "memory \<Rightarrow> addr \<Rightarrow> 64 word \<Rightarrow> memory" where
  "store64 m a v = (\<lambda>x. if x - a < 8 then byte_of v (unat (x - a)) else m x)"

text \<open>\<^verbatim>\<open>memset(p, 0, n)\<close> and \<^verbatim>\<open>memcpy(dst, src, n)\<close> (the source is read before any write).\<close>

definition memset0 :: "memory \<Rightarrow> addr \<Rightarrow> size_t \<Rightarrow> memory" where
  "memset0 m p n = (\<lambda>x. if x - p < n then 0 else m x)"

definition memcpy :: "memory \<Rightarrow> addr \<Rightarrow> addr \<Rightarrow> size_t \<Rightarrow> memory" where
  "memcpy m dst src n = (\<lambda>x. if x - dst < n then m (src + (x - dst)) else m x)"

subsection \<open>Constants\<close>

definition WORD_SIZE :: size_t where
  "WORD_SIZE = 8"

definition DOUBLE_WORD_SIZE :: size_t where
  "DOUBLE_WORD_SIZE = WORD_SIZE * 2"

definition HEAP_SIZE :: size_t where
  "HEAP_SIZE = 2 * 1024 * 1024 * 1024"

text \<open>\<^verbatim>\<open>sizeof(header_s)\<close>: a \<^verbatim>\<open>size_t size\<close> at offset 0 and a \<^verbatim>\<open>struct header* next\<close> at offset 8.\<close>

definition sizeof_header :: size_t where
  "sizeof_header = 16"

definition MAP_FAILED :: addr where
  "MAP_FAILED = - 1"

subsection \<open>Allocator state\<close>

record alloc_state =
  free_ptr :: addr
  start_ptr :: addr
  end_ptr :: addr
  free_list_head :: addr
  mem :: memory

text \<open>
  The ways a call leaves defined behaviour instead of returning: \<^verbatim>\<open>exit(1)\<close> in
  \<^verbatim>\<open>init\<close>, a store through a null \<^verbatim>\<open>header_s*\<close> (a write to address 8, which no
  process has mapped), and a store below the 16-byte stack buffer of \<^verbatim>\<open>debug_int\<close>.
\<close>

datatype fatal = MmapFailed | NullDeref | BufferOverrun

subsection \<open>debug and debug_int\<close>

text \<open>
  \<^verbatim>\<open>debug\<close> writes the bytes of its argument up to the first NUL; the model returns what is
  written. The argument is given as the bytes that lie in memory from \<^verbatim>\<open>msg\<close> on.
\<close>

definition debug :: "string \<Rightarrow> string" where
  "debug msg = takeWhile (\<lambda>c. c \<noteq> CHR 0x00) msg"

text \<open>
  The loop of \<^verbatim>\<open>debug_int\<close>. A \<^verbatim>\<open>long\<close> is an \<open>int\<close>; C's \<^verbatim>\<open>/\<close> and \<^verbatim>\<open>%\<close> truncate
  towards zero (\<open>sdiv\<close>, \<open>smod\<close>), and dividing by 10 cannot overflow. The buffer is
  represented by its initialised part \<^verbatim>\<open>buffer[i..15]\<close>: the cells below \<open>i\<close> are never
  read. A write at an index below 0 is outside the array.
\<close>

function debug_int_loop :: "int \<Rightarrow> int \<Rightarrow> string \<Rightarrow> fatal + string" where
  "debug_int_loop v i buffer =
     (if v \<noteq> 0 then
        (let i = i - 1; digit = v smod 10 in
         if i < 0 then Inl BufferOverrun
         else debug_int_loop (v sdiv 10) i (char_of (digit + 48) # buffer))
      else Inr buffer)"
  by pat_completeness auto
termination
proof (relation "measure (\<lambda>(v, i, buffer). nat \<bar>v\<bar>)")
  show "wf (measure (\<lambda>(v, i, buffer). nat \<bar>v\<bar>))"
    by simp
next
  fix v i :: int and buffer :: string and i' digit :: int
  assume "v \<noteq> 0"
  then have "\<bar>v sdiv 10\<bar> < \<bar>v\<bar>"
    unfolding signed_divide_int_def
    by (cases "0 < v") (auto simp: abs_mult sgn_if)
  then show "((v sdiv 10, i', char_of (digit + 48) # buffer), v, i, buffer)
             \<in> measure (\<lambda>(v, i, buffer). nat \<bar>v\<bar>)"
    by simp
qed

declare debug_int_loop.simps [simp del]

definition debug_int :: "int \<Rightarrow> fatal + string" where
  "debug_int v =
     (case debug_int_loop v 15 [CHR 0x00] of
        Inl e \<Rightarrow> Inl e
      | Inr buffer \<Rightarrow> Inr (debug buffer))"

subsection \<open>init\<close>

text \<open>
  \<open>mm\<close> is what the reservation primitive \<^verbatim>\<open>mmap\<close> returns when it is called.
\<close>

definition init :: "addr \<Rightarrow> alloc_state \<Rightarrow> fatal + alloc_state" where
  "init mm s =
     (if free_ptr s = NULL then
        (if mm = MAP_FAILED then Inl MmapFailed
         else Inr (s\<lparr>free_ptr := mm, start_ptr := mm, end_ptr := mm + HEAP_SIZE\<rparr>))
      else Inr s)"

subsection \<open>malloc\<close>

text \<open>
  The search loop of \<^verbatim>\<open>malloc\<close>. It ends with \<open>Inr (Some p, m')\<close> when the function returns
  \<open>p\<close> from inside the loop, with \<open>Inr (None, m)\<close> when the loop runs off the end of the list,
  and with \<open>Inl NullDeref\<close> when \<^verbatim>\<open>previous->next\<close> is written while \<^verbatim>\<open>previous\<close> is null.
  The list lives in memory and may be cyclic, so the loop is partial: \<open>None\<close> is a search that
  never ends. \<^verbatim>\<open>current + sizeof(header_s)\<close> is arithmetic on \<^verbatim>\<open>header_s*\<close>: it moves by
  16 headers of 16 bytes.
\<close>

partial_function (option) search ::
  "memory \<Rightarrow> size_t \<Rightarrow> addr \<Rightarrow> addr \<Rightarrow> (fatal + addr option \<times> memory) option" where
  "search m sz previous current =
     (if current \<noteq> NULL then
        (if sz \<le> load64 m current then
           (if previous = NULL then Some (Inl NullDeref)
            else Some (Inr (Some (current + sizeof_header * sizeof_header),
                            store64 m (previous + 8) (load64 m (current + 8)))))
         else search m sz current (load64 m (current + 8)))
      else Some (Inr (None, m)))"

declare search.simps [code]

definition excess :: "size_t \<Rightarrow> size_t" where
  "excess sz =
     (if sz mod DOUBLE_WORD_SIZE \<noteq> 0 then DOUBLE_WORD_SIZE - sz mod DOUBLE_WORD_SIZE else 0)"

definition block_size :: "size_t \<Rightarrow> size_t" where
  "block_size sz = sz + excess sz"

definition total_size :: "size_t \<Rightarrow> size_t" where
  "total_size sz = block_size sz + sizeof_header"

text \<open>
  The tail of \<^verbatim>\<open>malloc\<close>, reached when no free block was returned. The comparison is
  between a \<^verbatim>\<open>size_t\<close> sum and \<^verbatim>\<open>end_ptr\<close>, so it is unsigned and the sum wraps. The header
  gets \<^verbatim>\<open>.size = size\<close>; the returned pointer moves by 16 headers, \<^verbatim>\<open>free_ptr\<close> by
  \<^verbatim>\<open>size + sizeof(header_s)\<close> bytes.
\<close>

definition carve :: "size_t \<Rightarrow> alloc_state \<Rightarrow> addr \<times> alloc_state" where
  "carve sz s =
     (if end_ptr s \<le> free_ptr s + total_size sz then (NULL, s)
      else (free_ptr s + sizeof_header * sizeof_header,
            s\<lparr>free_ptr := free_ptr s + sz + sizeof_header,
              mem := store64 (store64 (mem s) (free_ptr s) sz) (free_ptr s + 8) NULL\<rparr>))"

text \<open>
  \<^verbatim>\<open>malloc\<close> first prints its argument with \<^verbatim>\<open>debug_int\<close> (the \<^verbatim>\<open>size_t\<close> read as a
  \<^verbatim>\<open>long\<close>), then calls \<^verbatim>\<open>init\<close>. What reaches standard output is not allocator state
  and is dropped; that the print can leave its buffer is kept.
\<close>

definition malloc :: "addr \<Rightarrow> size_t \<Rightarrow> alloc_state \<Rightarrow> (fatal + addr \<times> alloc_state) option" where
  "malloc mm sz s =
     (case debug_int (sint sz) of
        Inl e \<Rightarrow> Some (Inl e)
      | Inr out \<Rightarrow>
         (case init mm s of
            Inl e \<Rightarrow> Some (Inl e)
          | Inr s1 \<Rightarrow>
              if sz = 0 then Some (Inr (NULL, s1))
              else if free_list_head s1 \<noteq> NULL then
                (case search (mem s1) sz NULL (free_list_head s1) of
                   None \<Rightarrow> None
                 | Some (Inl e) \<Rightarrow> Some (Inl e)
                 | Some (Inr (Some p, m')) \<Rightarrow> Some (Inr (p, s1\<lparr>mem := m'\<rparr>))
                 | Some (Inr (None, m')) \<Rightarrow> Some (Inr (carve sz s1)))
              else Some (Inr (carve sz s1))))"

subsection \<open>free\<close>

text \<open>\<^verbatim>\<open>ptr - sizeof(header_s)\<close> is arithmetic on \<^verbatim>\<open>void*\<close>: it moves by 16 bytes.\<close>

definition free :: "addr \<Rightarrow> alloc_state \<Rightarrow> alloc_state" where
  "free ptr s =
     (if ptr = NULL then s
      else (let ptr_header = ptr - sizeof_header; temp = free_list_head s
            in s\<lparr>free_list_head := ptr_header,
                 mem := store64 (mem s) (ptr_header + 8) temp\<rparr>))"

subsection \<open>calloc\<close>

definition calloc :: "addr \<Rightarrow> size_t \<Rightarrow> size_t \<Rightarrow> alloc_state \<Rightarrow> (fatal + addr \<times> alloc_state) option" where
  "calloc mm nmemb sz s =
     (let bsz = nmemb * sz in
      case malloc mm bsz s of
        None \<Rightarrow> None
      | Some (Inl e) \<Rightarrow> Some (Inl e)
      | Some (Inr (new_block_ptr, s1)) \<Rightarrow>
          if new_block_ptr \<noteq> NULL
          then Some (Inr (new_block_ptr, s1\<lparr>mem := memset0 (mem s1) new_block_ptr bsz\<rparr>))
          else Some (Inr (new_block_ptr, s1)))"

subsection \<open>realloc\<close>

text \<open>
  The size is read through \<^verbatim>\<open>ptr - sizeof(header_s)\<close> (16 bytes below the payload); the
  shrink branch writes it through \<^verbatim>\<open>ptr - 1\<close>, one byte below the payload.
\<close>

definition realloc :: "addr \<Rightarrow> addr \<Rightarrow> size_t \<Rightarrow> alloc_state \<Rightarrow> (fatal + addr \<times> alloc_state) option" where
  "realloc mm ptr sz s =
     (if ptr = NULL then malloc mm sz s
      else if sz = 0 then Some (Inr (NULL, free ptr s))
      else
        (let temp = ptr - sizeof_header; bsz = load64 (mem s) temp in
         if sz \<le> bsz
         then (let ptr_header = ptr - 1
               in Some (Inr (ptr, s\<lparr>mem := store64 (mem s) ptr_header sz\<rparr>)))
         else
           (case malloc mm sz s of
              None \<Rightarrow> None
            | Some (Inl e) \<Rightarrow> Some (Inl e)
            | Some (Inr (new_block_ptr, s1)) \<Rightarrow>
                if new_block_ptr \<noteq> NULL
                then Some (Inr (new_block_ptr,
                       free ptr (s1\<lparr>mem := memcpy (mem s1) new_block_ptr ptr bsz\<rparr>)))
                else Some (Inr (new_block_ptr, s1)))))"

subsection \<open>A first use of the allocator\<close>

text \<open>
  The state of a process before its first call: every static is zero. The memory of a fresh
  anonymous mapping reads as zero. \<open>base\<close> is the address the reservation returns.
\<close>

definition boot :: alloc_state where
  "boot = \<lparr>free_ptr = NULL, start_ptr = 0, end_ptr = 0, free_list_head = NULL, mem = (\<lambda>_. 0)\<rparr>"

definition base :: addr where
  "base = 0x7F0000000000"

text \<open>The same heap once \<^verbatim>\<open>init\<close> has run, with nothing allocated yet.\<close>

definition booted :: alloc_state where
  "booted = boot\<lparr>free_ptr := base, start_ptr := base, end_ptr := base + HEAP_SIZE\<rparr>"

text \<open>
  A running example: from \<open>boot\<close>, the calls \<^verbatim>\<open>a = malloc(224)\<close>, \<^verbatim>\<open>b = malloc(100)\<close> and
  \<^verbatim>\<open>c = malloc(8)\<close> return \<open>base + 256\<close>, \<open>base + 496\<close> and \<open>base + 612\<close> and leave these
  states.
\<close>

definition one_block :: alloc_state where
  "one_block = booted
     \<lparr>free_ptr := base + 240,
      mem := store64 (store64 (mem booted) base 224) (base + 8) NULL\<rparr>"

definition two_blocks :: alloc_state where
  "two_blocks = one_block
     \<lparr>free_ptr := base + 356,
      mem := store64 (store64 (mem one_block) (base + 240) 100) (base + 248) NULL\<rparr>"

definition three_blocks :: alloc_state where
  "three_blocks = two_blocks
     \<lparr>free_ptr := base + 380,
      mem := store64 (store64 (mem two_blocks) (base + 356) 8) (base + 364) NULL\<rparr>"

section \<open>Facts about the memory model\<close>

lemma nat_diff_less_iff: "0 < m \<Longrightarrow> (n - k < m) = (n < m + (k::nat))"
  by arith

text \<open>The eight bytes of a value, put together again, are the value.\<close>

lemma bytes_join:
  "ucast (byte_of v 0) OR push_bit 8 (ucast (byte_of v 1)) OR push_bit 16 (ucast (byte_of v 2))
   OR push_bit 24 (ucast (byte_of v 3)) OR push_bit 32 (ucast (byte_of v 4))
   OR push_bit 40 (ucast (byte_of v 5)) OR push_bit 48 (ucast (byte_of v 6))
   OR push_bit 56 (ucast (byte_of v 7)) = (v :: 64 word)"
proof (rule bit_eqI)
  fix n
  assume "possible_bit TYPE(64 word) n"
  then have n: "n < 64" by (simp add: possible_bit_def)
  consider "n < 8" | "8 \<le> n \<and> n < 16" | "16 \<le> n \<and> n < 24" | "24 \<le> n \<and> n < 32"
    | "32 \<le> n \<and> n < 40" | "40 \<le> n \<and> n < 48" | "48 \<le> n \<and> n < 56" | "56 \<le> n \<and> n < 64"
    using n by linarith
  then show "bit (ucast (byte_of v 0) OR push_bit 8 (ucast (byte_of v 1)) OR push_bit 16 (ucast (byte_of v 2))
   OR push_bit 24 (ucast (byte_of v 3)) OR push_bit 32 (ucast (byte_of v 4))
   OR push_bit 40 (ucast (byte_of v 5)) OR push_bit 48 (ucast (byte_of v 6))
   OR push_bit 56 (ucast (byte_of v 7)) :: 64 word) n = bit v n"
    by cases (simp_all add: byte_of_def bit_simps nat_diff_less_iff)
qed

lemma store64_bytes:
  "store64 m a v a = byte_of v 0" "store64 m a v (a + 1) = byte_of v 1"
  "store64 m a v (a + 2) = byte_of v 2" "store64 m a v (a + 3) = byte_of v 3"
  "store64 m a v (a + 4) = byte_of v 4" "store64 m a v (a + 5) = byte_of v 5"
  "store64 m a v (a + 6) = byte_of v 6" "store64 m a v (a + 7) = byte_of v 7"
  by (simp_all add: store64_def)

lemma load64_store64_same: "load64 (store64 m a v) a = v"
  unfolding load64_def store64_bytes by (rule bytes_join)

lemma store64_frame: "\<not> x - a < 8 \<Longrightarrow> store64 m a v x = m x"
  by (simp add: store64_def)

lemma word64_shift_range:
  fixes d k :: "64 word"
  assumes "8 \<le> d" "d \<le> - 8" "k < 8"
  shows "\<not> d + k < 8"
proof -
  have "unat d \<ge> 8" using assms(1) by (simp add: word_le_nat_alt)
  moreover have "unat d \<le> 2^64 - 8" using assms(2) by (simp add: word_le_nat_alt)
  moreover have "unat k < 8" using assms(3) by (simp add: word_less_nat_alt)
  ultimately have "unat (d + k) = unat d + unat k"
    by (simp add: unat_word_ariths)
  then show ?thesis using \<open>unat d \<ge> 8\<close> by (simp add: word_less_nat_alt)
qed

lemma load64_store64_other:
  assumes "8 \<le> b - a" "b - a \<le> - 8"
  shows "load64 (store64 m a v) b = load64 m b"
proof -
  have "store64 m a v (b + k) = m (b + k)" if "k < 8" for k
  proof -
    have eq: "b + k - a = (b - a) + k" by simp
    have "\<not> b + k - a < 8" unfolding eq by (rule word64_shift_range[OF assms that])
    then show ?thesis by (rule store64_frame)
  qed
  from this[of 0] this[of 1] this[of 2] this[of 3] this[of 4] this[of 5] this[of 6] this[of 7]
  show ?thesis by (simp add: load64_def)
qed

subsection \<open>Facts about debug_int\<close>

lemma debug_int_zero: "debug_int 0 = Inr []"
  by (simp add: debug_int_def debug_def debug_int_loop.simps)

text \<open>Digits are written right to left; a value of 16 digits leaves the buffer.\<close>

lemma debug_int_renders_digits: "debug_int 120 = Inr ''120''"
  by (simp add: debug_int_def debug_def debug_int_loop.simps signed_divide_int_def
      signed_modulo_int_def char_of_def)

lemma debug_int_overrun: "debug_int 1000000000000000 = Inl BufferOverrun"
  by (simp add: debug_int_def debug_def debug_int_loop.simps signed_divide_int_def
      signed_modulo_int_def)

lemma digit_char_not_NUL: "char_of (v smod 10 + 48 :: int) \<noteq> CHR 0x00"
proof -
  have "\<bar>v smod 10\<bar> < 10"
    by (simp add: signed_modulo_int_def abs_mult sgn_if)
  then have "0 < v smod 10 + 48" "v smod 10 + 48 < 256" by linarith+
  then have "take_bit 8 (v smod 10 + 48) \<noteq> 0"
    by (simp add: take_bit_eq_mod)
  then show ?thesis by (simp add: char_of_eq_iff)
qed

lemma debug_int_loop_head:
  "debug_int_loop v i buffer = Inr b \<Longrightarrow> v \<noteq> 0 \<or> (buffer \<noteq> [] \<and> hd buffer \<noteq> CHR 0x00)
    \<Longrightarrow> b \<noteq> [] \<and> hd b \<noteq> CHR 0x00"
proof (induction v i buffer rule: debug_int_loop.induct)
  case (1 v i buffer)
  show ?case
  proof (cases "v = 0")
    case True
    with "1.prems" show ?thesis by (simp add: debug_int_loop.simps)
  next
    case False
    with "1.prems"(1) have nonneg: "\<not> i - 1 < 0"
      by (subst (asm) debug_int_loop.simps) (auto simp: Let_def split: if_splits)
    with False "1.prems"(1)
    have "debug_int_loop (v sdiv 10) (i - 1) (char_of (v smod 10 + 48) # buffer) = Inr b"
      by (subst (asm) debug_int_loop.simps) (simp add: Let_def)
    from "1.IH"[OF False refl refl nonneg this] show ?thesis
      using digit_char_not_NUL by simp
  qed
qed



subsection \<open>Sizes as natural numbers\<close>






subsection \<open>malloc when the search returns no block\<close>


text \<open>A match at the head of the list is reached with \<^verbatim>\<open>previous\<close> still null.\<close>

lemma search_head_match:
  assumes "current \<noteq> NULL" and "sz \<le> load64 m current"
  shows "search m sz NULL current = Some (Inl NullDeref)"
  using assms by (simp add: search.simps)





subsection \<open>Evaluating the running example\<close>

lemmas malloc_eval =
  malloc_def init_def carve_def MAP_FAILED_def HEAP_SIZE_def total_size_def block_size_def
  excess_def DOUBLE_WORD_SIZE_def WORD_SIZE_def sizeof_header_def debug_int_def debug_def
  debug_int_loop.simps signed_divide_int_def signed_modulo_int_def search.simps

lemmas example_states =
  boot_def booted_def base_def one_block_def two_blocks_def three_blocks_def

lemma running_example:
  "malloc base 224 boot = Some (Inr (base + 256, one_block))"
  "malloc base 100 one_block = Some (Inr (base + 496, two_blocks))"
  "malloc base 8 two_blocks = Some (Inr (base + 612, three_blocks))"
  by (simp_all add: malloc_eval example_states)

section \<open>The claims\<close>

subsection \<open>C1\<close>

text \<open>
  C1 at the first call of a process, \<^verbatim>\<open>malloc(224)\<close>. The header is written at \<open>base\<close> and the
  payload returned is \<open>base + 256\<close>: \<^verbatim>\<open>to_return + sizeof(header_s)\<close> moves a \<^verbatim>\<open>header_s*\<close> by
  16 headers. \<^verbatim>\<open>free\<close> of that payload takes its header at \<open>base + 240\<close>, 16 bytes below the
  payload, and \<^verbatim>\<open>realloc\<close> reads the size there too; the size \<^verbatim>\<open>malloc\<close> recorded is not at
  that address. The stride is 256 one way and 16 the other.
\<close>

theorem stride_mismatch:
  "malloc base 224 boot = Some (Inr (base + 256, one_block))
   \<and> load64 (mem one_block) base = 224
   \<and> base + sizeof_header * sizeof_header = base + 256
   \<and> free_list_head (free (base + 256) one_block) = base + 240
   \<and> base + 240 + sizeof_header = base + 256
   \<and> base + 240 \<noteq> base
   \<and> load64 (mem one_block) (base + 240) = 0"
  by (simp add: malloc_eval example_states free_def load64_def store64_def byte_of_def)

subsection \<open>C2\<close>

text \<open>
  C2 after \<^verbatim>\<open>a = malloc(224)\<close>, \<^verbatim>\<open>b = malloc(100)\<close>, \<^verbatim>\<open>free(a)\<close>. The free list has one
  element, the header that \<^verbatim>\<open>free\<close> took at \<open>base + 240\<close>, and the size read there is 100.
  \<^verbatim>\<open>malloc(50)\<close> finds it at the head with \<^verbatim>\<open>previous\<close> still null and stores through the null
  pointer.
\<close>

theorem unlink_head_null_predecessor:
  "malloc base 224 boot = Some (Inr (base + 256, one_block))
   \<and> malloc base 100 one_block = Some (Inr (base + 496, two_blocks))
   \<and> free_list_head (free (base + 256) two_blocks) = base + 240
   \<and> load64 (mem (free (base + 256) two_blocks)) (base + 240) = 100
   \<and> load64 (mem (free (base + 256) two_blocks)) (base + 248) = NULL
   \<and> malloc base 50 (free (base + 256) two_blocks) = Some (Inl NullDeref)"
  by (simp add: malloc_eval example_states free_def load64_def store64_def byte_of_def)

subsection \<open>C3\<close>

text \<open>
  C3 on the running example. The payload of \<open>a\<close> is the 224 bytes from \<open>base + 256\<close>, and
  \<^verbatim>\<open>c = malloc(8)\<close> writes the header of \<open>c\<close> at \<open>base + 356\<close>, inside it: the frontier is moved
  by the 16 bytes of a header while the payload lies 256 bytes above the header. After
  \<^verbatim>\<open>free(a)\<close> and \<^verbatim>\<open>free(c)\<close> the block \<open>b\<close> at \<open>base + 496\<close> is still live; \<^verbatim>\<open>malloc(50)\<close>
  passes the head of the free list, matches the second element at \<open>base + 240\<close> and returns
  \<open>base + 240 + 256\<close>, which is \<open>b\<close>: two live blocks share one payload.
\<close>

theorem malloc_returns_live_block:
  "malloc base 224 boot = Some (Inr (base + 256, one_block))
   \<and> malloc base 100 one_block = Some (Inr (base + 496, two_blocks))
   \<and> malloc base 8 two_blocks = Some (Inr (base + 612, three_blocks))
   \<and> base + 356 - (base + 256) < 224
   \<and> load64 (mem two_blocks) (base + 356) = 0
   \<and> load64 (mem three_blocks) (base + 356) = 8
   \<and> (case malloc base 50 (free (base + 612) (free (base + 256) three_blocks)) of
        Some (Inr (d, s)) \<Rightarrow> d = base + 496
      | _ \<Rightarrow> False)"
  by (simp add: malloc_eval example_states free_def load64_def store64_def byte_of_def)

subsection \<open>C4\<close>

text \<open>
  C4 at \<^verbatim>\<open>malloc(100)\<close> on the heap that holds one block. No free block exists, so the block is
  carved. The padded size is 112 and the total size 128, but the header gets the size 100 and
  \<^verbatim>\<open>free_ptr\<close> moves by 116.
\<close>

theorem carve_records_requested_size:
  "free_list_head one_block = NULL
   \<and> block_size 100 = 112
   \<and> total_size 100 = 128
   \<and> malloc base 100 one_block = Some (Inr (base + 496, two_blocks))
   \<and> load64 (mem two_blocks) (free_ptr one_block) = 100
   \<and> free_ptr two_blocks = free_ptr one_block + 116"
  by (simp add: malloc_eval example_states load64_def store64_def byte_of_def)

subsection \<open>C5\<close>




subsection \<open>C6\<close>

text \<open>
  C6 after \<^verbatim>\<open>a = malloc(224)\<close>, \<^verbatim>\<open>b = malloc(100)\<close> and a store of the byte \<open>0xAB\<close> to
  \<^verbatim>\<open>a[0]\<close>. The size that \<^verbatim>\<open>realloc(a, 50)\<close> reads 16 bytes below \<open>a\<close> is 100, so it shrinks in
  place and returns \<open>a\<close>. It writes the new size through \<^verbatim>\<open>ptr - 1\<close>: the size it read is still
  100, the size \<^verbatim>\<open>malloc\<close> recorded for \<open>a\<close> is still 224, and the first payload byte is now 0.
\<close>

theorem shrink_writes_into_payload:
  "malloc base 224 boot = Some (Inr (base + 256, one_block))
   \<and> malloc base 100 one_block = Some (Inr (base + 496, two_blocks))
   \<and> (case realloc base (base + 256) 50
             (two_blocks\<lparr>mem := (mem two_blocks)(base + 256 := 0xAB)\<rparr>) of
        Some (Inr (p, s)) \<Rightarrow>
          p = base + 256
          \<and> load64 (mem s) (base + 256 - sizeof_header) = 100
          \<and> load64 (mem s) base = 224
          \<and> mem s (base + 256) = 0
          \<and> mem s (base + 256) \<noteq> 0xAB
      | _ \<Rightarrow> False)"
  by (simp add: malloc_eval example_states realloc_def load64_def store64_def byte_of_def)

subsection \<open>C7\<close>

text \<open>
  C7 on blocks that \<^verbatim>\<open>malloc\<close> returned. The block \<open>a\<close> of the running example was allocated
  with 224 bytes, and that size is recorded at \<open>base\<close>. \<^verbatim>\<open>realloc\<close> reads the size 16 bytes
  below the payload, where nothing is recorded for \<open>a\<close>. After a store of \<open>0xAB\<close> to
  \<^verbatim>\<open>a[0]\<close>, \<^verbatim>\<open>realloc(a, 300)\<close> reads the size 0, allocates the block \<open>base + 496\<close>, copies no
  byte, so the first byte of the new block is not \<open>0xAB\<close>, and pushes on the free list the
  header at \<open>base + 240\<close>, which is the header \<^verbatim>\<open>malloc\<close> has just written for the new block.
  With a second block of 1000 bytes allocated after \<open>a\<close>, \<^verbatim>\<open>realloc(a, 500)\<close> reads the size
  1000 and returns \<open>a\<close> from the shrink branch: nothing is allocated although 500 exceeds 224.
\<close>

theorem realloc_grow_loses_content:
  "malloc base 224 boot = Some (Inr (base + 256, one_block))
   \<and> load64 (mem one_block) base = 224
   \<and> load64 (mem one_block) (base + 256 - sizeof_header) = 0
   \<and> (case realloc base (base + 256) 300
             (one_block\<lparr>mem := (mem one_block)(base + 256 := 0xAB)\<rparr>) of
        Some (Inr (q, s)) \<Rightarrow>
          q = base + 496
          \<and> mem s (base + 256) = 0xAB
          \<and> mem s q = 0
          \<and> free_list_head s = base + 240
          \<and> q - sizeof_header * sizeof_header = base + 240
          \<and> load64 (mem s) (base + 240) = 300
      | _ \<Rightarrow> False)
   \<and> (case malloc base 1000 one_block of
        Some (Inr (y, s2)) \<Rightarrow>
          y = base + 496
          \<and> load64 (mem s2) (base + 256 - sizeof_header) = 1000
          \<and> (case realloc base (base + 256) 500 s2 of
               Some (Inr (p, s3)) \<Rightarrow>
                 p = base + 256 \<and> free_ptr s3 = free_ptr s2 \<and> free_list_head s3 = NULL
             | _ \<Rightarrow> False)
      | _ \<Rightarrow> False)"
  by (simp add: malloc_eval example_states realloc_def free_def memcpy_def load64_def store64_def
      byte_of_def)

subsection \<open>C8\<close>

text \<open>
  C8. \<^verbatim>\<open>free(NULL)\<close> changes nothing. For a non-null \<open>ptr\<close>, \<^verbatim>\<open>free\<close> takes the header at
  \<open>ptr - sizeof_header\<close>, makes it the head of the free list and stores the previous head in
  its \<^verbatim>\<open>next\<close> field. The eight bytes of that field, \<open>ptr - 8\<close> up to \<open>ptr - 1\<close>, are the only
  bytes of memory that change: the header's \<^verbatim>\<open>size\<close> field, the payload from \<open>ptr\<close> on and
  every other address keep their contents, and so do \<^verbatim>\<open>free_ptr\<close>, \<^verbatim>\<open>start_ptr\<close> and
  \<^verbatim>\<open>end_ptr\<close>.
\<close>

theorem free_pushes_header:
  "free NULL s = s \<and>
   (ptr \<noteq> NULL \<longrightarrow>
      free_list_head (free ptr s) = ptr - sizeof_header
      \<and> load64 (mem (free ptr s)) (ptr - sizeof_header + 8) = free_list_head s
      \<and> load64 (mem (free ptr s)) (ptr - sizeof_header) = load64 (mem s) (ptr - sizeof_header)
      \<and> (\<forall>x. \<not> x - (ptr - 8) < 8 \<longrightarrow> mem (free ptr s) x = mem s x)
      \<and> (\<forall>i. i < - 8 \<longrightarrow> mem (free ptr s) (ptr + i) = mem s (ptr + i))
      \<and> free_ptr (free ptr s) = free_ptr s
      \<and> start_ptr (free ptr s) = start_ptr s
      \<and> end_ptr (free ptr s) = end_ptr s)"
proof -
  have null: "free NULL s = s" by (simp add: free_def)
  have m: "mem (free ptr s) = store64 (mem s) (ptr - 8) (free_list_head s)" if "ptr \<noteq> NULL"
    using that by (simp add: free_def sizeof_header_def Let_def)
  have a: "ptr - sizeof_header + 8 = ptr - 8" "ptr - sizeof_header = ptr - 16"
    by (simp_all add: sizeof_header_def)
  have link: "load64 (store64 (mem s) (ptr - 8) (free_list_head s)) (ptr - 8) = free_list_head s"
    by (rule load64_store64_same)
  have size_kept:
    "load64 (store64 (mem s) (ptr - 8) (free_list_head s)) (ptr - 16) = load64 (mem s) (ptr - 16)"
    by (rule load64_store64_other) simp_all
  have frame: "store64 (mem s) (ptr - 8) (free_list_head s) x = mem s x"
    if "\<not> x - (ptr - 8) < 8" for x
    using that by (rule store64_frame)
  have payload: "store64 (mem s) (ptr - 8) (free_list_head s) (ptr + i) = mem s (ptr + i)"
    if "i < - 8" for i
  proof (rule store64_frame)
    have "unat i < 2 ^ 64 - 8" using that by (simp add: word_less_nat_alt)
    then have "unat (i + 8) = unat i + 8" by (simp add: unat_word_ariths)
    then have "\<not> i + 8 < 8" by (simp add: word_less_nat_alt)
    moreover have "ptr + i - (ptr - 8) = i + 8" by simp
    ultimately show "\<not> ptr + i - (ptr - 8) < 8" by simp
  qed
  have rest: "free_list_head (free ptr s) = ptr - sizeof_header"
    "free_ptr (free ptr s) = free_ptr s"
    "start_ptr (free ptr s) = start_ptr s" "end_ptr (free ptr s) = end_ptr s" if "ptr \<noteq> NULL"
    using that by (simp_all add: free_def Let_def)
  show ?thesis
    using null rest by (simp add: m a link size_kept frame payload)
qed

text \<open>
  The theorem at \<^verbatim>\<open>free(a)\<close> on the heap that holds the block \<open>a\<close> of the running example: the
  header pushed lies 16 bytes below the payload, its link field holds the old, empty head, and
  the first payload byte and the size stored at \<open>base\<close> are as before.
\<close>

theorem free_pushes_header_witness:
  "free NULL one_block = one_block
   \<and> base + 256 \<noteq> NULL
   \<and> free_list_head (free (base + 256) one_block) = base + 240
   \<and> load64 (mem (free (base + 256) one_block)) (base + 248) = NULL
   \<and> mem (free (base + 256) one_block) (base + 256) = mem one_block (base + 256)
   \<and> mem (free (base + 256) one_block) base = mem one_block base
   \<and> free_ptr (free (base + 256) one_block) = base + 240"
  using free_pushes_header [of one_block "base + 256"]
  by (simp add: example_states sizeof_header_def)

subsection \<open>C9\<close>

text \<open>
  C9, as the claim states it: \<^verbatim>\<open>malloc(0)\<close> mutates no allocator state. On the first call of a
  process it does: \<^verbatim>\<open>init\<close> runs before the size is looked at and reserves the heap, so
  \<^verbatim>\<open>free_ptr\<close>, \<^verbatim>\<open>start_ptr\<close> and \<^verbatim>\<open>end_ptr\<close> all change.
\<close>

theorem malloc_zero_first_use_counterexample:
  "malloc base 0 boot = Some (Inr (NULL, booted))
   \<and> free_ptr booted \<noteq> free_ptr boot
   \<and> start_ptr booted \<noteq> start_ptr boot
   \<and> end_ptr booted \<noteq> end_ptr boot"
  by (simp add: malloc_def init_def debug_int_zero booted_def boot_def base_def MAP_FAILED_def
      HEAP_SIZE_def)

text \<open>
  C9, amended. \<^verbatim>\<open>malloc(0)\<close>, and \<^verbatim>\<open>calloc(nmemb, size)\<close> whose product \<^verbatim>\<open>nmemb * size\<close> is 0
  in 64-bit arithmetic, first make sure the heap exists and then return null. On a heap that
  is already set up the state is returned as it was. On first use the only change is the
  reservation itself: the three bounds are set to the region, with the frontier at its start;
  no block is carved and the free list and memory are as before. If the reservation fails the
  process exits.
\<close>

theorem zero_size_request:
  assumes "nmemb * sz = 0"
  shows "calloc mm nmemb sz s = malloc mm 0 s
    \<and> (free_ptr s \<noteq> NULL \<longrightarrow> malloc mm 0 s = Some (Inr (NULL, s)))
    \<and> (free_ptr s = NULL \<and> mm \<noteq> MAP_FAILED \<longrightarrow>
         malloc mm 0 s =
           Some (Inr (NULL, s\<lparr>free_ptr := mm, start_ptr := mm, end_ptr := mm + HEAP_SIZE\<rparr>)))
    \<and> (free_ptr s = NULL \<and> mm = MAP_FAILED \<longrightarrow> malloc mm 0 s = Some (Inl MmapFailed))"
proof -
  have m: "malloc a 0 s =
     (case init a s of Inl e \<Rightarrow> Some (Inl e) | Inr s1 \<Rightarrow> Some (Inr (NULL, s1)))" for a
    by (simp add: malloc_def debug_int_zero split: sum.splits)
  have "calloc mm nmemb sz s = malloc mm 0 s"
    using assms by (simp add: calloc_def m split: sum.splits)
  then show ?thesis
    by (simp add: m init_def)
qed

theorem zero_size_request_witness:
  "(4294967296 :: size_t) * 4294967296 = 0
   \<and> calloc base 4294967296 4294967296 booted = Some (Inr (NULL, booted))
   \<and> malloc base 0 booted = Some (Inr (NULL, booted))
   \<and> malloc base 0 boot = Some (Inr (NULL, booted))
   \<and> malloc MAP_FAILED 0 boot = Some (Inl MmapFailed)"
  using zero_size_request [of 4294967296 4294967296 base booted]
    zero_size_request [of 0 0 base boot] zero_size_request [of 0 0 MAP_FAILED boot]
  by (simp add: booted_def boot_def base_def MAP_FAILED_def)

subsection \<open>C10\<close>

text \<open>
  C10. For the value 0 \<^verbatim>\<open>debug_int\<close> writes no character at all, not the digit 0: its loop
  does not run and the string starts at the terminator. Every other value that is printed gives
  at least one character, so the output is empty exactly for 0.
\<close>

theorem debug_int_empty_iff_zero: "debug_int v = Inr [] \<longleftrightarrow> v = 0"
proof
  assume e: "debug_int v = Inr []"
  show "v = 0"
  proof (rule ccontr)
    assume nz: "v \<noteq> 0"
    from e obtain b where b: "debug_int_loop v 15 [CHR 0x00] = Inr b" "debug b = []"
      by (auto simp: debug_int_def split: sum.splits)
    from debug_int_loop_head[OF b(1)] nz have "b \<noteq> []" "hd b \<noteq> CHR 0x00" by auto
    then have "debug b \<noteq> []" by (cases b) (auto simp: debug_def)
    with b(2) show False by simp
  qed
next
  assume "v = 0" then show "debug_int v = Inr []" by (simp add: debug_int_zero)
qed

end
